theory Spec2Isabelle
  imports Main
begin

section \<open>React element trees\<close>

text \<open>
  The two components of the application shell are functions returning a JSX
  expression.  A JSX expression evaluates to a tree of elements: each element
  names a component, carries an optional \<open>key\<close>, its props and its children; a
  string child is a text node.  The components named in the two source files
  are imported from the UI kit, from the router and from the icon library, so
  the tree keeps them as they are written, unexpanded.
\<close>

text \<open>The icons imported from \<open>lucide-react\<close> by the sidebar module.\<close>

datatype icon = Calendar | Home | Inbox | Search | Settings

datatype component =
    Sidebar | SidebarContent | SidebarGroup | SidebarGroupContent
  | SidebarGroupLabel | SidebarMenu | SidebarMenuButton | SidebarMenuItem
  | Link | Outlet | Icon icon | Div | Span

text \<open>
  The props that occur in the source: \<open>asChild\<close>, \<open>to={...}\<close> and
  \<open>className="..."\<close>.  A JavaScript value that may be \<open>undefined\<close> is an
  option, \<open>None\<close> standing for \<open>undefined\<close>.
\<close>

datatype attr = AsChild | To "string option" | ClassName string

datatype element =
    Text string
  | Element component "string option" "attr list" "element list"

text \<open>
  An expression child \<open>{e}\<close> whose value is a string gives a text node; the
  value \<open>undefined\<close> gives no child.
\<close>

fun jsx_child :: "string option \<Rightarrow> element list" where
  "jsx_child None = []"
| "jsx_child (Some s) = [Text s]"


section \<open>The navigation registry and the sidebar\<close>

text \<open>
  One object of the \<open>items\<close> array.  Reading a property that the object does
  not have yields \<open>undefined\<close>, hence the options.
\<close>

record entry =
  title :: "string option"
  url :: "string option"
  icon :: icon

definition items :: "entry list" where
  "items =
    [\<lparr>title = Some ''Home'', url = Some ''/'', icon = Home\<rparr>,
     \<lparr>title = Some ''Dashboard'', url = Some ''/dashboard'', icon = Inbox\<rparr>,
     \<lparr>title = Some ''Settings'', url = Some ''/settings'', icon = Settings\<rparr>]"

text \<open>
  The module binds \<open>items\<close> to an array literal: evaluating the literal checks
  nothing and cannot fail.  \<open>items_literal\<close> is that evaluation for an arbitrary
  list of objects, \<open>None\<close> standing for a failure.
\<close>

definition items_literal :: "entry list \<Rightarrow> entry list option" where
  "items_literal objs = Some objs"

text \<open>An entry is well formed when it has both a title and a target path.\<close>

definition well_formed :: "entry \<Rightarrow> bool" where
  "well_formed item = (title item \<noteq> None \<and> url item \<noteq> None)"

text \<open>The body of the arrow function passed to \<open>items.map\<close>.\<close>

definition render_item :: "entry \<Rightarrow> element" where
  "render_item item =
    Element SidebarMenuItem (title item) []
      [Element SidebarMenuButton None [AsChild]
        [Element Link None [To (url item)]
          [Element (Icon (icon item)) None [] [],
           Element Span None [] (jsx_child (title item))]]]"

text \<open>
  \<open>AppSidebar\<close> reads the module-level constant \<open>items\<close>; here the registry is
  passed explicitly, and the component of the source is \<open>AppSidebar items\<close>.
\<close>

definition AppSidebar :: "entry list \<Rightarrow> element" where
  "AppSidebar registry =
    Element Sidebar None []
      [Element SidebarContent None []
        [Element SidebarGroup None []
          [Element SidebarGroupLabel None [] [Text ''Application''],
           Element SidebarGroupContent None []
             [Element SidebarMenu None [] (map render_item registry)]]]]"


section \<open>The dashboard layout\<close>

text \<open>The component of the \<open>/dashboard\<close> route.\<close>

definition RouteComponent :: element where
  "RouteComponent =
    Element Div None [ClassName ''min-h-screen '']
      [Text ''Dashboard Layout'',
       Element Div None [] [Element Outlet None [] []]]"

text \<open>
  \<open>Outlet\<close> belongs to the router, which renders the currently matched child
  route in its place, and nothing when no child matches.  The child's output
  is a parameter here: \<open>fill child t\<close> is the tree \<open>t\<close> with every \<open>Outlet\<close>
  replaced by \<open>child\<close>.
\<close>

fun fill :: "element list \<Rightarrow> element \<Rightarrow> element list" where
  "fill child (Text s) = [Text s]"
| "fill child (Element c k ps cs) =
    (if c = Outlet then child
     else [Element c k ps (concat (map (fill child) cs))])"


section \<open>Observing a tree\<close>

text \<open>All nodes of a tree, in document order.\<close>

fun elements_of :: "element \<Rightarrow> element list" where
  "elements_of (Text s) = [Text s]"
| "elements_of (Element c k ps cs) =
    Element c k ps cs # concat (map elements_of cs)"

fun is_component :: "component \<Rightarrow> element \<Rightarrow> bool" where
  "is_component c (Text s) = False"
| "is_component c (Element c' k ps cs) = (c' = c)"

fun key_of :: "element \<Rightarrow> string option" where
  "key_of (Text s) = None"
| "key_of (Element c k ps cs) = k"

fun props_of :: "element \<Rightarrow> attr list" where
  "props_of (Text s) = []"
| "props_of (Element c k ps cs) = ps"

text \<open>The text a tree displays, in document order.\<close>

fun text_of :: "element \<Rightarrow> string" where
  "text_of (Text s) = s"
| "text_of (Element c k ps cs) = concat (map text_of cs)"

text \<open>The value of the \<open>to\<close> prop, \<open>undefined\<close> when the prop is not given.\<close>

fun to_of :: "attr list \<Rightarrow> string option" where
  "to_of [] = None"
| "to_of (To p # ps) = p"
| "to_of (AsChild # ps) = to_of ps"
| "to_of (ClassName c # ps) = to_of ps"

definition menu_items :: "element \<Rightarrow> element list" where
  "menu_items t = filter (is_component SidebarMenuItem) (elements_of t)"

definition outlets :: "element \<Rightarrow> element list" where
  "outlets t = filter (is_component Outlet) (elements_of t)"

text \<open>The targets of the links inside a tree, in document order.\<close>

definition link_targets :: "element \<Rightarrow> string option list" where
  "link_targets t =
    map (\<lambda>e. to_of (props_of e)) (filter (is_component Link) (elements_of t))"

fun icon_of :: "element \<Rightarrow> icon list" where
  "icon_of (Element (Icon i) k ps cs) = [i]"
| "icon_of e = []"

text \<open>The icons inside a tree, in document order.\<close>

definition icons_of :: "element \<Rightarrow> icon list" where
  "icons_of t = concat (map icon_of (elements_of t))"

text \<open>
  The chrome of a tree: the tree with the children of every \<open>SidebarMenu\<close>
  removed.
\<close>

fun chrome :: "element \<Rightarrow> element" where
  "chrome (Text s) = Text s"
| "chrome (Element c k ps cs) =
    (if c = SidebarMenu then Element c k ps []
     else Element c k ps (map chrome cs))"


section \<open>Activation\<close>

text \<open>The ways of activating a menu item.\<close>

datatype activation = Pointer | KeyEnter | KeySpace

text \<open>A request handed to the router: navigate to the given path.\<close>

datatype nav_request = Navigate "string option"

text \<open>
  The source gives a menu item no handler of its own: the props it writes are
  \<open>key\<close>, \<open>asChild\<close> and \<open>to\<close>, and no click or key handler.  An activation
  therefore does what the rendered link does by itself.  \<open>Link\<close> belongs to
  the router and is not in the source files: it renders an anchor, and a
  click on the anchor asks the router to navigate to the value of \<open>to\<close>.  An
  anchor is clicked by the pointer, and by the Enter key while it has the
  focus; the Space key clicks no anchor, and nothing in the source listens
  to it.
\<close>

fun clicks :: "activation \<Rightarrow> bool" where
  "clicks Pointer = True"
| "clicks KeyEnter = True"
| "clicks KeySpace = False"

definition activate :: "activation \<Rightarrow> element \<Rightarrow> nav_request list" where
  "activate how item =
    (if clicks how then map Navigate (link_targets item) else [])"


section \<open>The registry in the heap\<close>

text \<open>
  The array bound to \<open>items\<close> and the objects in it are mutable JavaScript
  values.  To say what the program does to them, the sidebar is embedded a
  second time, as the program runs it: over a heap that holds the entry
  objects and the arrays of references to them.
\<close>

type_synonym addr = nat

record heap =
  objects :: "addr \<Rightarrow> entry option"
  arrays :: "addr \<Rightarrow> addr list option"

text \<open>
  A computation takes the heap and returns its result with the heap after
  it.  \<open>None\<close> is a computation that got stuck on a reference with nothing
  behind it.
\<close>

type_synonym 'a js = "heap \<Rightarrow> ('a \<times> heap) option"

definition js_return :: "'a \<Rightarrow> 'a js" where
  "js_return x h = Some (x, h)"

definition js_bind :: "'a js \<Rightarrow> ('a \<Rightarrow> 'b js) \<Rightarrow> 'b js" where
  "js_bind m f h = (case m h of None \<Rightarrow> None | Some (x, h') \<Rightarrow> f x h')"

text \<open>Reading a property of the object behind a reference, as \<open>item.title\<close>.\<close>

definition get_prop :: "(entry \<Rightarrow> 'a) \<Rightarrow> addr \<Rightarrow> 'a js" where
  "get_prop field a h =
    (case objects h a of None \<Rightarrow> None | Some obj \<Rightarrow> Some (field obj, h))"

text \<open>
  \<open>Array.prototype.map\<close>: the callback runs on the elements of the array in
  index order, each call on the heap the call before it left, and the results
  are collected in a new array.
\<close>

fun map_loop :: "(addr \<Rightarrow> 'b js) \<Rightarrow> addr list \<Rightarrow> 'b list js" where
  "map_loop f [] = js_return []"
| "map_loop f (a # as) =
    js_bind (f a) (\<lambda>b. js_bind (map_loop f as) (\<lambda>bs. js_return (b # bs)))"

definition array_map :: "(addr \<Rightarrow> 'b js) \<Rightarrow> addr \<Rightarrow> 'b list js" where
  "array_map f arr h =
    (case arrays h arr of None \<Rightarrow> None | Some as \<Rightarrow> map_loop f as h)"

text \<open>The array that the constant \<open>items\<close> is bound to.\<close>

definition items_ref :: addr where
  "items_ref = 0"

text \<open>
  Evaluating the array literal at module initialisation allocates one object
  per entry and the array of the references to them.
\<close>

definition alloc_items :: "entry list \<Rightarrow> heap" where
  "alloc_items objs =
    \<lparr>objects = (\<lambda>a. if 0 < a \<and> a \<le> length objs then Some (objs ! (a - 1)) else None),
     arrays = (\<lambda>a. if a = items_ref then Some [1..<Suc (length objs)] else None)\<rparr>"

text \<open>
  The arrow function passed to \<open>items.map\<close>, on a reference to an entry
  object; the properties are read in the order the JSX evaluates them.
\<close>

definition render_item_st :: "addr \<Rightarrow> element js" where
  "render_item_st item =
    js_bind (get_prop title item) (\<lambda>k.
    js_bind (get_prop url item) (\<lambda>u.
    js_bind (get_prop icon item) (\<lambda>i.
    js_bind (get_prop title item) (\<lambda>t.
    js_return
      (Element SidebarMenuItem k []
        [Element SidebarMenuButton None [AsChild]
          [Element Link None [To u]
            [Element (Icon i) None [] [],
             Element Span None [] (jsx_child t)]]])))))"

definition AppSidebar_st :: "element js" where
  "AppSidebar_st =
    js_bind (array_map render_item_st items_ref) (\<lambda>rendered.
    js_return
      (Element Sidebar None []
        [Element SidebarContent None []
          [Element SidebarGroup None []
            [Element SidebarGroupLabel None [] [Text ''Application''],
             Element SidebarGroupContent None []
               [Element SidebarMenu None [] rendered]]]]))"

text \<open>The layout component reads nothing of the heap.\<close>

definition RouteComponent_st :: "element js" where
  "RouteComponent_st = js_return RouteComponent"

text \<open>
  The value of the registry in a heap: the entries behind the references of
  the \<open>items\<close> array, in the order of the array.
\<close>

definition registry_of :: "heap \<Rightarrow> entry list option" where
  "registry_of h =
    (case arrays h items_ref of
       None \<Rightarrow> None
     | Some as \<Rightarrow> those (map (objects h) as))"

text \<open>
  The running program: the heap, and the requests the router has received so
  far.  The router is handed the path of a request and nothing else; \<open>items\<close>
  is not exported from its module.
\<close>

record world =
  store :: heap
  requests :: "nav_request list"

datatype operation =
    RenderSidebar
  | RenderLayout "element list"
  | Activate activation nat

text \<open>
  One operation, with what it renders and the world after it.  Activating
  the \<open>i\<close>-th menu item of the sidebar, as the current heap renders it, hands
  the item's requests to the router; there is nothing to activate at an index
  past the last item.
\<close>

fun perform :: "operation \<Rightarrow> world \<Rightarrow> (element list \<times> world) option" where
  "perform RenderSidebar w =
    (case AppSidebar_st (store w) of
       None \<Rightarrow> None
     | Some (t, h) \<Rightarrow> Some ([t], w\<lparr>store := h\<rparr>))"
| "perform (RenderLayout child) w =
    (case RouteComponent_st (store w) of
       None \<Rightarrow> None
     | Some (t, h) \<Rightarrow> Some (fill child t, w\<lparr>store := h\<rparr>))"
| "perform (Activate how i) w =
    (case AppSidebar_st (store w) of
       None \<Rightarrow> None
     | Some (t, h) \<Rightarrow>
         Some ([],
           if i < length (menu_items t)
           then w\<lparr>store := h,
                  requests := requests w @ activate how (menu_items t ! i)\<rparr>
           else w\<lparr>store := h\<rparr>))"

fun run :: "operation list \<Rightarrow> world \<Rightarrow> world option" where
  "run [] w = Some w"
| "run (x # xs) w =
    (case perform x w of None \<Rightarrow> None | Some (out, w') \<Rightarrow> run xs w')"


section \<open>Menu items of the sidebar\<close>

lemma elements_of_render_item:
  "elements_of (render_item item) =
    render_item item #
    Element SidebarMenuButton None [AsChild]
      [Element Link None [To (url item)]
        [Element (Icon (icon item)) None [] [],
         Element Span None [] (jsx_child (title item))]] #
    Element Link None [To (url item)]
      [Element (Icon (icon item)) None [] [],
       Element Span None [] (jsx_child (title item))] #
    Element (Icon (icon item)) None [] [] #
    Element Span None [] (jsx_child (title item)) #
    jsx_child (title item)"
  by (cases "title item") (simp_all add: render_item_def)

lemma menu_items_render_item:
  "filter (is_component SidebarMenuItem) (elements_of (render_item item)) =
    [render_item item]"
proof -
  have "filter (is_component SidebarMenuItem) (jsx_child (title item)) = []"
    by (cases "title item") simp_all
  then show ?thesis
    unfolding elements_of_render_item by (simp add: render_item_def)
qed

lemma menu_items_rendered:
  "filter (is_component SidebarMenuItem)
     (concat (map elements_of (map render_item R))) = map render_item R"
  by (induction R) (simp_all add: menu_items_render_item)

lemma menu_items_AppSidebar:
  "menu_items (AppSidebar R) = map render_item R"
  unfolding menu_items_def AppSidebar_def
  using menu_items_rendered [of R] by simp

lemma key_of_render_item: "key_of (render_item item) = title item"
  by (simp add: render_item_def)

lemma text_of_render_item:
  "text_of (render_item item) = (case title item of None \<Rightarrow> [] | Some s \<Rightarrow> s)"
  by (cases "title item") (simp_all add: render_item_def)

lemma link_targets_render_item:
  "link_targets (render_item item) = [url item]"
proof -
  have "filter (is_component Link) (jsx_child (title item)) = []"
    by (cases "title item") simp_all
  then show ?thesis
    unfolding link_targets_def elements_of_render_item
    by (simp add: render_item_def)
qed

lemma icons_of_render_item: "icons_of (render_item item) = [icon item]"
proof -
  have "concat (map icon_of (jsx_child (title item))) = []"
    by (cases "title item") simp_all
  then show ?thesis
    unfolding icons_of_def elements_of_render_item
    by (simp add: render_item_def)
qed

text \<open>
  C1.  Rendering the sidebar for a registry \<open>R\<close> produces exactly \<open>|R|\<close> menu
  items, one per entry and in the order of \<open>R\<close>: the menu items of the tree
  are the renderings of the entries of \<open>R\<close>, in that order, and the item of an
  entry carries that entry's title as key and as label, its path as the
  target of its one link, and its icon.
\<close>

theorem sidebar_one_item_per_entry:
  "length (menu_items (AppSidebar R)) = length R
   \<and> menu_items (AppSidebar R) = map render_item R
   \<and> map key_of (menu_items (AppSidebar R)) = map title R
   \<and> map text_of (menu_items (AppSidebar R)) =
       map (\<lambda>item. case title item of None \<Rightarrow> [] | Some s \<Rightarrow> s) R
   \<and> map link_targets (menu_items (AppSidebar R)) = map (\<lambda>item. [url item]) R
   \<and> map icons_of (menu_items (AppSidebar R)) = map (\<lambda>item. [icon item]) R"
  by (simp add: menu_items_AppSidebar key_of_render_item text_of_render_item
      link_targets_render_item icons_of_render_item comp_def)

text \<open>
  C4.  For the empty registry the sidebar renders no menu item and nothing in
  their place: the menu element has no children, and the tree is the chrome
  alone.
\<close>

theorem sidebar_empty_registry:
  "menu_items (AppSidebar []) = []
   \<and> AppSidebar [] =
       Element Sidebar None []
         [Element SidebarContent None []
           [Element SidebarGroup None []
             [Element SidebarGroupLabel None [] [Text ''Application''],
              Element SidebarGroupContent None []
                [Element SidebarMenu None [] []]]]]"
  by (simp add: menu_items_def AppSidebar_def)


section \<open>The layout and its slot\<close>

text \<open>
  C2.  Whatever child output the router supplies, the empty one included, the
  rendered layout is its frame (the container with the class
  \<open>min-h-screen\<close> and the text \<open>Dashboard Layout\<close>) around an inner container
  that holds exactly the child output; the component has exactly one
  \<open>Outlet\<close>, and with no matched child the frame is rendered around an empty
  inner container.
\<close>

theorem layout_frame_and_slot:
  "fill child RouteComponent =
     [Element Div None [ClassName ''min-h-screen '']
       [Text ''Dashboard Layout'', Element Div None [] child]]
   \<and> outlets RouteComponent = [Element Outlet None [] []]
   \<and> length (outlets RouteComponent) = 1
   \<and> text_of RouteComponent = ''Dashboard Layout''
   \<and> fill [] RouteComponent =
     [Element Div None [ClassName ''min-h-screen '']
       [Text ''Dashboard Layout'', Element Div None [] []]]"
  by (simp add: RouteComponent_def outlets_def)


section \<open>Activation\<close>


lemma activate_render_item:
  "activate how (render_item item) =
    (if clicks how then [Navigate (url item)] else [])"
  by (simp add: activate_def link_targets_render_item)




text \<open>
  C5.  The registry of the source has the titles \<open>Home\<close>, \<open>Dashboard\<close>,
  \<open>Settings\<close> with the paths \<open>/\<close>, \<open>/dashboard\<close>, \<open>/settings\<close>, in this order;
  the sidebar renders exactly three items for it, labelled \<open>Home\<close>,
  \<open>Dashboard\<close>, \<open>Settings\<close> in this order, and activating the second item,
  by the pointer or by the Enter key, issues one navigation request, to
  \<open>/dashboard\<close>.
\<close>

theorem sidebar_of_items:
  "map (\<lambda>item. (title item, url item)) items =
     [(Some ''Home'', Some ''/''), (Some ''Dashboard'', Some ''/dashboard''),
      (Some ''Settings'', Some ''/settings'')]
   \<and> length (menu_items (AppSidebar items)) = 3
   \<and> map text_of (menu_items (AppSidebar items)) =
       [''Home'', ''Dashboard'', ''Settings'']
   \<and> map link_targets (menu_items (AppSidebar items)) =
       [[Some ''/''], [Some ''/dashboard''], [Some ''/settings'']]
   \<and> activate Pointer (menu_items (AppSidebar items) ! 1) =
       [Navigate (Some ''/dashboard'')]
   \<and> activate KeyEnter (menu_items (AppSidebar items) ! 1) =
       [Navigate (Some ''/dashboard'')]"
  by (simp add: menu_items_AppSidebar text_of_render_item
      link_targets_render_item activate_render_item items_def)


section \<open>Identity keys\<close>

text \<open>
  C6, as the claim states it: two entries with the same title and different
  paths.  Their menu items get the same key.
\<close>

theorem duplicate_titles_share_key:
  "url \<lparr>title = Some ''Home'', url = Some ''/'', icon = Home\<rparr> \<noteq>
     url \<lparr>title = Some ''Home'', url = Some ''/home'', icon = Inbox\<rparr>
   \<and> map key_of (menu_items (AppSidebar
         [\<lparr>title = Some ''Home'', url = Some ''/'', icon = Home\<rparr>,
          \<lparr>title = Some ''Home'', url = Some ''/home'', icon = Inbox\<rparr>])) =
       [Some ''Home'', Some ''Home'']
   \<and> \<not> distinct (map key_of (menu_items (AppSidebar
         [\<lparr>title = Some ''Home'', url = Some ''/'', icon = Home\<rparr>,
          \<lparr>title = Some ''Home'', url = Some ''/home'', icon = Inbox\<rparr>])))"
  by (simp add: menu_items_AppSidebar key_of_render_item)

text \<open>
  C6, amended.  The key of a menu item is the title of its entry and nothing
  else; so the keys of the rendered items are pairwise distinct whenever the
  titles of the registry are.
\<close>

theorem keys_are_titles:
  assumes "distinct (map title R)"
  shows "map key_of (menu_items (AppSidebar R)) = map title R
    \<and> distinct (map key_of (menu_items (AppSidebar R)))"
  using assms by (simp add: menu_items_AppSidebar key_of_render_item comp_def)

theorem keys_are_titles_witness:
  "distinct (map title items)
   \<and> map key_of (menu_items (AppSidebar items)) =
       [Some ''Home'', Some ''Dashboard'', Some ''Settings'']
   \<and> distinct (map key_of (menu_items (AppSidebar items)))"
proof -
  have d: "distinct (map title items)"
    by (simp add: items_def)
  have t: "map title items = [Some ''Home'', Some ''Dashboard'', Some ''Settings'']"
    by (simp add: items_def)
  show ?thesis
    using d keys_are_titles [OF d] by (simp add: t)
qed


section \<open>Malformed entries\<close>

text \<open>
  C7, as the claim states it: an entry without a title, and one without a
  target path.  Binding the registry does not fail for them, and neither does
  rendering: the first gets an item with no key and no label, the second an
  item whose link has no target.
\<close>

theorem malformed_entry_accepted:
  "\<not> well_formed \<lparr>title = None, url = Some ''/'', icon = Home\<rparr>
   \<and> \<not> well_formed \<lparr>title = Some ''Home'', url = None, icon = Home\<rparr>
   \<and> items_literal
        [\<lparr>title = None, url = Some ''/'', icon = Home\<rparr>,
         \<lparr>title = Some ''Home'', url = None, icon = Home\<rparr>] \<noteq> None
   \<and> map (\<lambda>e. (key_of e, text_of e, link_targets e))
        (menu_items (AppSidebar
          [\<lparr>title = None, url = Some ''/'', icon = Home\<rparr>,
           \<lparr>title = Some ''Home'', url = None, icon = Home\<rparr>])) =
       [(None, [], [Some ''/'']), (Some ''Home'', ''Home'', [None])]"
  by (simp add: well_formed_def items_literal_def menu_items_AppSidebar
      key_of_render_item text_of_render_item link_targets_render_item)

text \<open>
  C7, amended.  Nothing is validated when the registry is bound: binding
  never fails, whatever the entries lack.  Rendering is total over every
  registry, well formed or not, with one menu item per entry; an entry
  without a title gets an item with no key and no label, an entry without a
  path an item whose link has no target.
\<close>

theorem no_validation_of_entries:
  "items_literal objs = Some objs
   \<and> length (menu_items (AppSidebar objs)) = length objs
   \<and> key_of (render_item \<lparr>title = None, url = u, icon = i\<rparr>) = None
   \<and> text_of (render_item \<lparr>title = None, url = u, icon = i\<rparr>) = []
   \<and> link_targets (render_item \<lparr>title = t, url = None, icon = i\<rparr>) = [None]"
  by (simp add: items_literal_def menu_items_AppSidebar key_of_render_item
      text_of_render_item link_targets_render_item)


section \<open>The registry is constant\<close>

lemma those_map_Some: "those (map Some xs) = Some xs"
  by (induction xs) simp_all

lemma registry_of_alloc_items: "registry_of (alloc_items objs) = Some objs"
proof -
  have "map (objects (alloc_items objs)) [1..<Suc (length objs)] =
      map (\<lambda>a. Some (objs ! (a - 1))) [1..<Suc (length objs)]"
    by (rule map_cong) (auto simp add: alloc_items_def)
  also have "\<dots> = map Some (map (\<lambda>i. objs ! i) [0..<length objs])"
    by (simp add: map_Suc_upt [symmetric] del: upt_Suc)
  also have "\<dots> = map Some objs"
    by (simp add: map_nth)
  finally show ?thesis
    by (simp add: registry_of_def alloc_items_def those_map_Some)
qed

lemma render_item_st_object:
  assumes "objects h a = Some item"
  shows "render_item_st a h = Some (render_item item, h)"
  using assms
  by (simp add: render_item_st_def render_item_def js_bind_def js_return_def
      get_prop_def)

lemma map_loop_render_items:
  assumes "those (map (objects h) as) = Some R"
  shows "map_loop render_item_st as h = Some (map render_item R, h)"
  using assms
proof (induction as arbitrary: R)
  case Nil
  then show ?case
    by (simp add: js_return_def)
next
  case (Cons a as)
  from Cons.prems obtain item rest where
    a: "objects h a = Some item" and
    rest: "those (map (objects h) as) = Some rest" and
    R: "R = item # rest"
    by (auto split: option.splits)
  from Cons.IH [OF rest] render_item_st_object [OF a] R show ?case
    by (simp add: js_bind_def js_return_def)
qed

lemma AppSidebar_st_refines:
  assumes "registry_of h = Some R"
  shows "AppSidebar_st h = Some (AppSidebar R, h)"
proof -
  from assms obtain as where
    arr: "arrays h items_ref = Some as" and
    objs: "those (map (objects h) as) = Some R"
    by (auto simp add: registry_of_def split: option.splits)
  from map_loop_render_items [OF objs] arr show ?thesis
    by (simp add: AppSidebar_st_def AppSidebar_def array_map_def js_bind_def
        js_return_def)
qed

lemma perform_store:
  assumes "registry_of (store w) = Some R"
  shows "\<exists>out q. perform x w = Some (out, \<lparr>store = store w, requests = q\<rparr>)"
proof (cases x)
  case RenderSidebar
  with AppSidebar_st_refines [OF assms] show ?thesis
    by (cases w) simp
next
  case (RenderLayout child)
  then show ?thesis
    by (cases w) (simp add: RouteComponent_st_def js_return_def)
next
  case (Activate how i)
  with AppSidebar_st_refines [OF assms] show ?thesis
    by (cases w) simp
qed

lemma run_store:
  assumes "registry_of (store w) = Some R"
  shows "\<exists>q. run xs w = Some \<lparr>store = store w, requests = q\<rparr>"
  using assms
proof (induction xs arbitrary: w)
  case Nil
  then show ?case
    by (cases w) simp
next
  case (Cons x xs)
  from perform_store [OF Cons.prems, of x] obtain out q where
    p: "perform x w = Some (out, \<lparr>store = store w, requests = q\<rparr>)"
    by blast
  have "registry_of (store \<lparr>store = store w, requests = q\<rparr>) = Some R"
    using Cons.prems by simp
  from Cons.IH [OF this] p show ?case
    by simp
qed

text \<open>
  C8.  No operation of the program changes the registry.  From a heap in
  which the \<open>items\<close> array holds the entries \<open>R\<close>, rendering the sidebar,
  rendering the layout and activating an item each return, and so does every
  sequence of them, with the heap exactly as it was: no entry object is
  created, changed or removed, and the registry still holds the entries \<open>R\<close>
  in the same order.
\<close>

theorem registry_is_constant:
  assumes "registry_of (store w) = Some R"
  shows "map_option (\<lambda>r. store (snd r)) (perform x w) = Some (store w)
    \<and> map_option store (run xs w) = Some (store w)
    \<and> map_option (\<lambda>w'. registry_of (store w')) (run xs w) = Some (Some R)"
proof -
  from perform_store [OF assms, of x] obtain out q where
    "perform x w = Some (out, \<lparr>store = store w, requests = q\<rparr>)"
    by blast
  moreover from run_store [OF assms, of xs] obtain q' where
    "run xs w = Some \<lparr>store = store w, requests = q'\<rparr>"
    by blast
  ultimately show ?thesis
    using assms by simp
qed

theorem registry_is_constant_witness:
  "registry_of (store \<lparr>store = alloc_items items, requests = []\<rparr>) = Some items
   \<and> map_option (\<lambda>r. store (snd r))
       (perform (Activate Pointer 1) \<lparr>store = alloc_items items, requests = []\<rparr>) =
       Some (alloc_items items)
   \<and> map_option store
       (run [RenderSidebar, Activate KeyEnter 1, RenderLayout [], RenderSidebar]
         \<lparr>store = alloc_items items, requests = []\<rparr>) = Some (alloc_items items)
   \<and> map_option (\<lambda>w'. registry_of (store w'))
       (run [RenderSidebar, Activate KeyEnter 1, RenderLayout [], RenderSidebar]
         \<lparr>store = alloc_items items, requests = []\<rparr>) = Some (Some items)"
proof -
  have r: "registry_of (store \<lparr>store = alloc_items items, requests = []\<rparr>) =
      Some items"
    by (simp add: registry_of_alloc_items)
  from registry_is_constant [OF r, of "Activate Pointer 1"
      "[RenderSidebar, Activate KeyEnter 1, RenderLayout [], RenderSidebar]"]
  show ?thesis
    using r by simp
qed

text \<open>
  C9.  The sidebar is a function of the value of the registry alone and keeps
  no state.  In every heap whose \<open>items\<close> array holds the entries \<open>R\<close>,
  rendering returns the same tree, determined by \<open>R\<close>, and leaves the heap as
  it was; so two renders in heaps with the same registry value give the same
  output, whatever else the heaps hold, wherever the entry objects lie, and
  whatever requests the router has received.
\<close>

theorem sidebar_depends_on_registry_only:
  assumes "registry_of h = Some R" and "registry_of h' = Some R"
  shows "AppSidebar_st h = Some (AppSidebar R, h)
    \<and> map_option fst (AppSidebar_st h) = map_option fst (AppSidebar_st h')
    \<and> map_option fst (perform RenderSidebar \<lparr>store = h, requests = q\<rparr>) =
        map_option fst (perform RenderSidebar \<lparr>store = h', requests = q'\<rparr>)"
  using AppSidebar_st_refines [OF assms(1)] AppSidebar_st_refines [OF assms(2)]
  by simp

theorem sidebar_depends_on_registry_only_witness:
  "registry_of (alloc_items items) = Some items
   \<and> registry_of
       \<lparr>objects = [5 \<mapsto> items ! 0, 7 \<mapsto> items ! 1, 9 \<mapsto> items ! 2,
          11 \<mapsto> \<lparr>title = Some ''Inbox'', url = None, icon = Inbox\<rparr>],
        arrays = [0 \<mapsto> [5, 7, 9], 4 \<mapsto> [11, 5]]\<rparr> = Some items
   \<and> AppSidebar_st (alloc_items items) = Some (AppSidebar items, alloc_items items)
   \<and> map_option fst (AppSidebar_st (alloc_items items)) =
       map_option fst (AppSidebar_st
         \<lparr>objects = [5 \<mapsto> items ! 0, 7 \<mapsto> items ! 1, 9 \<mapsto> items ! 2,
            11 \<mapsto> \<lparr>title = Some ''Inbox'', url = None, icon = Inbox\<rparr>],
          arrays = [0 \<mapsto> [5, 7, 9], 4 \<mapsto> [11, 5]]\<rparr>)"
proof -
  have r: "registry_of (alloc_items items) = Some items"
    by (rule registry_of_alloc_items)
  have r': "registry_of
       \<lparr>objects = [5 \<mapsto> items ! 0, 7 \<mapsto> items ! 1, 9 \<mapsto> items ! 2,
          11 \<mapsto> \<lparr>title = Some ''Inbox'', url = None, icon = Inbox\<rparr>],
        arrays = [0 \<mapsto> [5, 7, 9], 4 \<mapsto> [11, 5]]\<rparr> = Some items"
    by (simp add: registry_of_def items_ref_def items_def)
  note t = sidebar_depends_on_registry_only [OF r r', of "[]" "[]"]
  show ?thesis
    using r r' t by blast
qed


section \<open>The chrome of the sidebar\<close>

lemma chrome_not_in_item:
  assumes "c \<in> {Sidebar, SidebarContent, SidebarGroup, SidebarGroupLabel,
    SidebarGroupContent, SidebarMenu}"
  shows "filter (is_component c) (elements_of (render_item item)) = []"
proof -
  have "filter (is_component c) (jsx_child (title item)) = []"
    by (cases "title item") simp_all
  with assms show ?thesis
    unfolding elements_of_render_item by (auto simp add: render_item_def)
qed

lemma chrome_not_in_items:
  assumes "c \<in> {Sidebar, SidebarContent, SidebarGroup, SidebarGroupLabel,
    SidebarGroupContent, SidebarMenu}"
  shows "filter (is_component c) (concat (map elements_of (map render_item R))) = []"
  by (induction R) (simp_all add: chrome_not_in_item [OF assms])

text \<open>
  C10.  For every registry, the empty one included, the sidebar's tree
  contains the group label with the text \<open>Application\<close>, and its chrome (the
  sidebar, content, group, label, group content and menu containers around
  the items) is the same tree whatever the registry holds: the tree rendered
  for the empty registry.
\<close>

theorem sidebar_chrome_fixed:
  "chrome (AppSidebar R) = AppSidebar []
   \<and> chrome (AppSidebar R) = chrome (AppSidebar R')
   \<and> Element SidebarGroupLabel None [] [Text ''Application'']
       \<in> set (elements_of (AppSidebar R))
   \<and> text_of (chrome (AppSidebar R)) = ''Application''
   \<and> map (\<lambda>c. length (filter (is_component c) (elements_of (AppSidebar R))))
       [Sidebar, SidebarContent, SidebarGroup, SidebarGroupLabel,
        SidebarGroupContent, SidebarMenu] = [1, 1, 1, 1, 1, 1]"
  using chrome_not_in_items [of _ R]
  by (simp add: AppSidebar_def)

end
